theory Spec2Isabelle
  imports Complex_Main "HOL-Library.Word"
begin

unbundle bit_operations_syntax

section \<open>The STL viewer of components/LearningDashboard.tsx\<close>

text \<open>
  The file holds two React components. \<open>STLModel\<close> fetches a model, parses it with the
  loader of the three package and frames the camera; \<open>STLViewer\<close> owns the reset and zoom
  buttons. JavaScript numbers are modelled as \<open>real\<close>: the arithmetic the components do
  themselves is a maximum, a multiplication by two and the scaling of the zoom.
\<close>

subsection \<open>Vector3\<close>

record Vector3 =
  vx :: real
  vy :: real
  vz :: real

definition vec :: "real \<Rightarrow> real \<Rightarrow> real \<Rightarrow> Vector3" where
  "vec a b c = \<lparr>vx = a, vy = b, vz = c\<rparr>"

definition vadd :: "Vector3 \<Rightarrow> Vector3 \<Rightarrow> Vector3" where
  "vadd a b = vec (vx a + vx b) (vy a + vy b) (vz a + vz b)"

definition vsub :: "Vector3 \<Rightarrow> Vector3 \<Rightarrow> Vector3" where
  "vsub a b = vec (vx a - vx b) (vy a - vy b) (vz a - vz b)"

definition multiplyScalar :: "real \<Rightarrow> Vector3 \<Rightarrow> Vector3" where
  "multiplyScalar k a = vec (k * vx a) (k * vy a) (k * vz a)"

definition vmin :: "Vector3 \<Rightarrow> Vector3 \<Rightarrow> Vector3" where
  "vmin a b = vec (min (vx a) (vx b)) (min (vy a) (vy b)) (min (vz a) (vz b))"

definition vmax :: "Vector3 \<Rightarrow> Vector3 \<Rightarrow> Vector3" where
  "vmax a b = vec (max (vx a) (vx b)) (max (vy a) (vy b)) (max (vz a) (vz b))"

subsection \<open>The camera and its orbit controls\<close>

text \<open>
  What the components read and write of the three scene: the camera's position and zoom,
  the point last given to \<open>camera.lookAt\<close>, and the target of the OrbitControls. The
  projection matrix is not modelled, so \<open>updateProjectionMatrix()\<close> has no equation.
  \<open>controls.update()\<close> belongs to the controls library; it is the parameter \<open>upd\<close> of
  every function that calls it.
\<close>

record scene =
  cam_position :: Vector3
  cam_zoom :: real
  cam_aim :: Vector3
  ctl_target :: Vector3

definition keeps_view :: "(scene \<Rightarrow> scene) \<Rightarrow> bool" where
  "keeps_view upd \<longleftrightarrow>
     (\<forall>c. cam_position (upd c) = cam_position c \<and> cam_zoom (upd c) = cam_zoom c
          \<and> ctl_target (upd c) = ctl_target c)"







subsection \<open>STLViewer: state, reset and zoom\<close>

text \<open>
  \<open>error\<close> and \<open>initialCameraPosition\<close> are the component's two \<open>useState\<close> cells.
  \<open>controlsRef\<close> says whether \<open>controlsRef.current\<close> is set, \<open>store_controls\<close> whether
  \<open>useThree().controls\<close> is (what \<open>STLModel\<close> sees).
\<close>

record STLViewer =
  error :: bool
  initialCameraPosition :: Vector3
  controlsRef :: bool
  store_controls :: bool
  view :: scene

definition STLViewer_init :: "bool \<Rightarrow> bool \<Rightarrow> scene \<Rightarrow> STLViewer" where
  "STLViewer_init ref st sc =
     \<lparr>error = False, initialCameraPosition = vec 5 5 5, controlsRef = ref,
      store_controls = st, view = sc\<rparr>"

definition handleInitialViewComputed :: "Vector3 \<Rightarrow> STLViewer \<Rightarrow> STLViewer" where
  "handleInitialViewComputed p v = v\<lparr>initialCameraPosition := p\<rparr>"

definition resetView :: "(scene \<Rightarrow> scene) \<Rightarrow> STLViewer \<Rightarrow> STLViewer" where
  "resetView upd v =
     (if controlsRef v
      then v\<lparr>view := upd ((view v)\<lparr>cam_position := initialCameraPosition v,
                                     cam_zoom := 1,
                                     ctl_target := vec 0 0 0\<rparr>)\<rparr>
      else v)"

definition zoom :: "(scene \<Rightarrow> scene) \<Rightarrow> real \<Rightarrow> STLViewer \<Rightarrow> STLViewer" where
  "zoom upd factor v =
     (if controlsRef v
      then v\<lparr>view := upd ((view v)\<lparr>cam_zoom := cam_zoom (view v) * factor\<rparr>)\<rparr>
      else v)"

text \<open>The camera frame a reset is about: position, target and zoom.\<close>

definition frame_of :: "STLViewer \<Rightarrow> Vector3 \<times> Vector3 \<times> real" where
  "frame_of v = (cam_position (view v), ctl_target (view v), cam_zoom (view v))"

text \<open>
  What the user can do to a mounted viewer: the three buttons (reset, zoom in by 1.2, zoom
  out by 1/1.2, here any factor) and pointer input on the OrbitControls, which moves the
  camera and the target to wherever the drag leads.
\<close>

datatype action = ResetView | Zoom real | Orbit Vector3 Vector3

fun act :: "(scene \<Rightarrow> scene) \<Rightarrow> action \<Rightarrow> STLViewer \<Rightarrow> STLViewer" where
  "act upd ResetView v = resetView upd v"
| "act upd (Zoom f) v = zoom upd f v"
| "act upd (Orbit p t) v = v\<lparr>view := (view v)\<lparr>cam_position := p, ctl_target := t\<rparr>\<rparr>"

fun acts :: "(scene \<Rightarrow> scene) \<Rightarrow> action list \<Rightarrow> STLViewer \<Rightarrow> STLViewer" where
  "acts upd [] v = v"
| "acts upd (a # as) v = acts upd as (act upd a v)"

subsection \<open>BufferGeometry and Box3 of the three package\<close>

text \<open>
  The geometry object the loader returns is a \<open>BufferGeometry\<close> of the three package,
  whose code is not in the repository. Of it the component uses \<open>computeVertexNormals\<close>,
  \<open>computeBoundingBox\<close>, \<open>boundingBox.getCenter\<close>, \<open>boundingBox.getSize\<close> and
  \<open>translate\<close>. The model keeps the vertex positions (three per triangle, in order) and
  the stored box; the normal attribute is not modelled, so \<open>computeVertexNormals()\<close> has
  no equation.
\<close>

record Box3 =
  bmin :: Vector3
  bmax :: Vector3

record BufferGeometry =
  positions :: "Vector3 list"
  boundingBox :: "Box3 option"

text \<open>Modelled from the spec: the bounding box is the componentwise minimum and maximum
  over all vertex positions (4.4 step 1), and it is absent for an empty mesh (3,
  BoundingBox). The code of \<open>Box3\<close> is missing.\<close>

fun expandByPoints :: "Box3 \<Rightarrow> Vector3 list \<Rightarrow> Box3" where
  "expandByPoints b [] = b"
| "expandByPoints b (p # ps) =
     expandByPoints \<lparr>bmin = vmin (bmin b) p, bmax = vmax (bmax b) p\<rparr> ps"

fun box_of :: "Vector3 list \<Rightarrow> Box3 option" where
  "box_of [] = None"
| "box_of (p # ps) = Some (expandByPoints \<lparr>bmin = p, bmax = p\<rparr> ps)"

text \<open>Modelled from the spec: \<open>computeBoundingBox\<close> stores the box of the current
  positions (4.4 step 1). The code of \<open>BufferGeometry\<close> is missing.\<close>

definition computeBoundingBox :: "BufferGeometry \<Rightarrow> BufferGeometry" where
  "computeBoundingBox g = g\<lparr>boundingBox := box_of (positions g)\<rparr>"

text \<open>Modelled from the spec: the center is the midpoint of the box's min and max corners
  (4.4 step 2). The code of \<open>Box3.getCenter\<close> is missing.\<close>

definition getCenter :: "Box3 \<Rightarrow> Vector3" where
  "getCenter b = multiplyScalar (1 / 2) (vadd (bmin b) (bmax b))"

text \<open>Modelled from the spec: the size is the max corner minus the min corner,
  componentwise (4.5). The code of \<open>Box3.getSize\<close> is missing.\<close>

definition getSize :: "Box3 \<Rightarrow> Vector3" where
  "getSize b = vsub (bmax b) (bmin b)"

text \<open>Modelled from the spec: \<open>translate\<close> moves every vertex by the given vector (4.4
  step 3), and a stored bounding box is recomputed relative to the translated geometry
  (4.4, invariant). The code of \<open>BufferGeometry.translate\<close> is missing.\<close>

definition translate :: "real \<Rightarrow> real \<Rightarrow> real \<Rightarrow> BufferGeometry \<Rightarrow> BufferGeometry" where
  "translate tx ty tz g =
     (let moved = g\<lparr>positions := map (vadd (vec tx ty tz)) (positions g)\<rparr>
      in if boundingBox g = None then moved else computeBoundingBox moved)"

subsection \<open>STLModel: state\<close>

type_synonym byte = "8 word"

text \<open>
  The error the fallback block ends with: the \<open>Error\<close> of line 87 ("File does not appear
  to be a valid ASCII STL, and binary parsing failed."), or whatever \<open>parseASCII\<close> threw.
\<close>

datatype 'e fallback_error = NotValidAscii | Thrown 'e

text \<open>The lines the component writes to the console, one constructor per call site.\<close>

datatype 'e console_line =
    LogParsedStandard
  | WarnStandardFailed 'e
  | LogDetectedAscii
  | ErrorFallbackFailed "'e fallback_error"
  | ErrorLoading

text \<open>
  \<open>url\<close> is the prop, \<open>geometry\<close> and \<open>isRotating\<close> the two \<open>useState\<close> cells.
  \<open>inflight\<close> lists the urls whose \<open>fileLoader.load\<close> has been started and has not yet
  called back; \<open>console\<close> collects what was logged.
\<close>

record ('e, 'g) STLModel =
  url :: string
  geometry :: "'g option"
  isRotating :: bool
  inflight :: "string list"
  console :: "'e console_line list"

definition setGeometry :: "'g option \<Rightarrow> ('e, 'g) STLModel \<Rightarrow> ('e, 'g) STLModel" where
  "setGeometry g m = m\<lparr>geometry := g\<rparr>"

definition say :: "'e console_line \<Rightarrow> ('e, 'g) STLModel \<Rightarrow> ('e, 'g) STLModel" where
  "say l m = m\<lparr>console := console m @ [l]\<rparr>"

subsection \<open>STLModel: the load callback (lines 70 to 94)\<close>

text \<open>
  \<open>decoder.decode(fileBuffer.slice(0, 5)).toLowerCase() === 'solid'\<close> on bytes. The slice
  holds the first five bytes, or all of them when there are fewer. The decoded and
  lower-cased text equals \<open>solid\<close> exactly when the slice is five ASCII letters spelling
  it in either case: a byte outside ASCII decodes to a character that lower-casing never
  turns into one of these letters, so it is left as it is here and compares unequal.
\<close>

definition toLowerCase :: "byte \<Rightarrow> byte" where
  "toLowerCase b = (if 0x41 \<le> b \<and> b \<le> 0x5A then b + 0x20 else b)"

definition beginning :: "byte list \<Rightarrow> byte list" where
  "beginning fileBuffer = map toLowerCase (take 5 fileBuffer)"

definition solid :: "byte list" where
  "solid = [0x73, 0x6F, 0x6C, 0x69, 0x64]"

text \<open>
  The callback. \<open>parse\<close> is \<open>loader.parse\<close> and \<open>parseASCII\<close> is \<open>loader.parseASCII\<close>
  applied to the decoded text of the whole buffer; both belong to the loader of the three
  package and are parameters, \<open>Inl\<close> standing for a throw. Every path of the callback ends
  in one \<open>setGeometry\<close>; \<open>load_result\<close> gives the console lines written and the value
  set, and \<open>on_load\<close> applies them.
\<close>

definition load_result ::
  "(byte list \<Rightarrow> 'e + 'g) \<Rightarrow> (byte list \<Rightarrow> 'e + 'g) \<Rightarrow> byte list
   \<Rightarrow> 'e console_line list \<times> 'g option" where
  "load_result parse parseASCII fileBuffer =
     (case parse fileBuffer of
        Inr loadedGeometry \<Rightarrow> ([LogParsedStandard], Some loadedGeometry)
      | Inl err \<Rightarrow>
          (if beginning fileBuffer = solid
           then (case parseASCII fileBuffer of
                   Inr asciiGeometry \<Rightarrow>
                     ([WarnStandardFailed err, LogDetectedAscii], Some asciiGeometry)
                 | Inl fallbackError \<Rightarrow>
                     ([WarnStandardFailed err, LogDetectedAscii,
                       ErrorFallbackFailed (Thrown fallbackError)], None))
           else ([WarnStandardFailed err, ErrorFallbackFailed NotValidAscii], None)))"

definition deliver ::
  "'e console_line list \<times> 'g option \<Rightarrow> ('e, 'g) STLModel \<Rightarrow> ('e, 'g) STLModel" where
  "deliver r m = setGeometry (snd r) (m\<lparr>console := console m @ fst r\<rparr>)"

definition on_load ::
  "(byte list \<Rightarrow> 'e + 'g) \<Rightarrow> (byte list \<Rightarrow> 'e + 'g) \<Rightarrow> byte list
   \<Rightarrow> ('e, 'g) STLModel \<Rightarrow> ('e, 'g) STLModel" where
  "on_load parse parseASCII fileBuffer m = deliver (load_result parse parseASCII fileBuffer) m"

definition on_error :: "('e, 'g) STLModel \<Rightarrow> ('e, 'g) STLModel" where
  "on_error m = setGeometry None (say ErrorLoading m)"

text \<open>
  The callback seen from the whole viewer. It runs inside \<open>STLModel\<close> and reaches that
  component's \<open>setGeometry\<close> and the console only: \<open>setError\<close> of \<open>STLViewer\<close> is not
  passed down, it is called from the \<open>onError\<close> of the Canvas alone (line 239).
\<close>

definition viewer_on_load ::
  "(byte list \<Rightarrow> 'e + 'g) \<Rightarrow> (byte list \<Rightarrow> 'e + 'g) \<Rightarrow> byte list
   \<Rightarrow> ('e, 'g) STLModel \<times> STLViewer \<Rightarrow> ('e, 'g) STLModel \<times> STLViewer" where
  "viewer_on_load parse parseASCII fileBuffer mv =
     (on_load parse parseASCII fileBuffer (fst mv), snd mv)"

subsection \<open>STLModel: the loading effect and its events\<close>

text \<open>
  The effect of lines 58 to 103 runs when the component mounts and whenever \<open>url\<close>
  changes. It has no cleanup function: a fetch that was started stays in flight and its
  callback runs when it completes, whatever \<open>url\<close> is by then. The progress callback
  only writes a percentage to the console and is left out.
\<close>

definition load_effect :: "('e, 'g) STLModel \<Rightarrow> ('e, 'g) STLModel" where
  "load_effect m =
     (if url m = [] then setGeometry None m
      else m\<lparr>inflight := inflight m @ [url m]\<rparr>)"

definition mount :: "string \<Rightarrow> ('e, 'g) STLModel" where
  "mount u = load_effect
     \<lparr>url = u, geometry = None, isRotating = False, inflight = [], console = []\<rparr>"

definition setUrl :: "string \<Rightarrow> ('e, 'g) STLModel \<Rightarrow> ('e, 'g) STLModel" where
  "setUrl u m = (if u = url m then m else load_effect (m\<lparr>url := u\<rparr>))"

text \<open>
  The events of a mounted \<open>STLModel\<close>: a new \<open>url\<close> prop, the completion of a fetch that
  is in flight (carrying what its callback logs and sets, \<open>load_result\<close> of the bytes
  received), the failure of one, and a click on the mesh.
\<close>

datatype ('e, 'g) event =
    SetUrl string
  | FetchLoaded string "'e console_line list \<times> 'g option"
  | FetchError string
  | Click

fun step :: "('e, 'g) event \<Rightarrow> ('e, 'g) STLModel \<Rightarrow> ('e, 'g) STLModel option" where
  "step (SetUrl u) m = Some (setUrl u m)"
| "step (FetchLoaded u r) m =
     (if u \<in> set (inflight m)
      then Some (deliver r (m\<lparr>inflight := remove1 u (inflight m)\<rparr>))
      else None)"
| "step (FetchError u) m =
     (if u \<in> set (inflight m)
      then Some (on_error (m\<lparr>inflight := remove1 u (inflight m)\<rparr>))
      else None)"
| "step Click m = Some (m\<lparr>isRotating := \<not> isRotating m\<rparr>)"

fun run :: "('e, 'g) event list \<Rightarrow> ('e, 'g) STLModel \<Rightarrow> ('e, 'g) STLModel option" where
  "run [] m = Some m"
| "run (e # es) m = (case step e m of None \<Rightarrow> None | Some m' \<Rightarrow> run es m')"

subsection \<open>STLModel: the framing effect (lines 106 to 141)\<close>

datatype js_error = TypeError

text \<open>
  The effect mutates the geometry object in place, moves the camera, hands the position to
  the parent through \<open>onInitialViewComputed\<close> (\<open>handleInitialViewComputed\<close> of
  \<open>STLViewer\<close>) and aims the camera or the controls at the origin. Line 117 reads
  \<open>geometry.boundingBox\<close> again after the translation; were it null there, the property
  access would throw.
\<close>

definition frame_effect ::
  "(scene \<Rightarrow> scene) \<Rightarrow> ('e, BufferGeometry) STLModel \<times> STLViewer
   \<Rightarrow> js_error + ('e, BufferGeometry) STLModel \<times> STLViewer" where
  "frame_effect upd mv =
     (case mv of (m, v) \<Rightarrow>
      (case geometry m of
         None \<Rightarrow> Inr (m, v)
       | Some g \<Rightarrow>
          (let g1 = computeBoundingBox g in
           case boundingBox g1 of
             None \<Rightarrow> Inr (m\<lparr>geometry := Some g1\<rparr>, v)
           | Some box \<Rightarrow>
              (let center = getCenter box;
                   g2 = translate (- vx center) (- vy center) (- vz center) g1
               in case boundingBox g2 of
                    None \<Rightarrow> Inl TypeError
                  | Some box2 \<Rightarrow>
                     (let size = getSize box2;
                          maxDim = max (vx size) (max (vy size) (vz size));
                          distance = maxDim * 2;
                          initialPosition = vec distance distance distance;
                          sc1 = (view v)\<lparr>cam_position := initialPosition\<rparr>;
                          v1 = handleInitialViewComputed initialPosition v;
                          sc2 = (if store_controls v
                                 then upd (sc1\<lparr>ctl_target := vec 0 0 0\<rparr>)
                                 else sc1\<lparr>cam_aim := vec 0 0 0\<rparr>)
                      in Inr (m\<lparr>geometry := Some g2\<rparr>, v1\<lparr>view := sc2\<rparr>))))))"

subsection \<open>The binary parser\<close>

text \<open>
  \<open>loader.parse\<close> is \<open>STLLoader.parse\<close> of the three package; its code is not in the
  repository. The definitions of this subsection follow section 4.2 of the specification
  instead. A triangle keeps its twelve numbers as the 32-bit patterns read.
\<close>

datatype ParseError =
    UnrecognizedFormat
  | TruncatedOrCorrupt nat nat
  | MalformedFacet nat
  | EmptyMesh
  | FetchFailed
  | NumericOverflow

type_synonym f32 = "32 word"

record Triangle =
  normal :: "f32 \<times> f32 \<times> f32"
  v0 :: "f32 \<times> f32 \<times> f32"
  v1 :: "f32 \<times> f32 \<times> f32"
  v2 :: "f32 \<times> f32 \<times> f32"

text \<open>Modelled from the spec: a 4-byte little-endian unsigned integer (4.2). The reader
  of the loader is missing.\<close>

fun le_uint32 :: "byte list \<Rightarrow> nat" where
  "le_uint32 (b0 # b1 # b2 # b3 # _) =
     unat b0 + 256 * unat b1 + 65536 * unat b2 + 16777216 * unat b3"
| "le_uint32 _ = 0"

definition getUint32 :: "nat \<Rightarrow> byte list \<Rightarrow> nat" where
  "getUint32 off buf = le_uint32 (take 4 (drop off buf))"

definition getFloat32 :: "nat \<Rightarrow> byte list \<Rightarrow> f32" where
  "getFloat32 off buf = word_of_nat (getUint32 off buf)"

definition getVec3 :: "nat \<Rightarrow> byte list \<Rightarrow> f32 \<times> f32 \<times> f32" where
  "getVec3 off buf = (getFloat32 off buf, getFloat32 (off + 4) buf, getFloat32 (off + 8) buf)"

text \<open>Modelled from the spec: one 50-byte record is the face normal, then the vertices
  v0, v1, v2, then a 2-byte attribute word that is skipped (4.2).\<close>

definition read_record :: "byte list \<Rightarrow> Triangle" where
  "read_record r = \<lparr>normal = getVec3 0 r, v0 = getVec3 12 r, v1 = getVec3 24 r, v2 = getVec3 36 r\<rparr>"

fun read_records :: "nat \<Rightarrow> byte list \<Rightarrow> Triangle list" where
  "read_records 0 bs = []"
| "read_records (Suc n) bs = read_record (take 50 bs) # read_records n (drop 50 bs)"

definition declared_count :: "byte list \<Rightarrow> nat" where
  "declared_count buf = getUint32 80 buf"

text \<open>Modelled from the spec: skip the 80-byte header, read the declared triangle count
  N, require the buffer length to be 84 + 50 N exactly and fail with TruncatedOrCorrupt
  (expected, actual) otherwise, then read N records in order (4.2). A buffer too short to
  hold the count is reported against the 84 bytes of header and count (8, the 83-byte
  example). The specification names a NumericOverflow error and gives it no threshold;
  it is not modelled. The code of \<open>STLLoader.parse\<close> is missing.\<close>

definition parseBinary :: "byte list \<Rightarrow> ParseError + Triangle list" where
  "parseBinary buf =
     (if length buf < 84 then Inl (TruncatedOrCorrupt 84 (length buf))
      else (let N = declared_count buf; required = 84 + 50 * N
            in if length buf \<noteq> required
               then Inl (TruncatedOrCorrupt required (length buf))
               else Inr (read_records N (drop 84 buf))))"

subsection \<open>The framing the specification describes, and sample data\<close>

text \<open>
  Section 4.5 in its own words, to compare \<open>frame_effect\<close> with: maxDim is the largest
  component of the box's size, distance is maxDim times two, and the position has that
  distance on all three axes.
\<close>

definition isometric_position :: "Box3 \<Rightarrow> Vector3" where
  "isometric_position b =
     (let maxDim = max (vx (getSize b)) (max (vy (getSize b)) (vz (getSize b)));
          distance = maxDim * 2
      in vec distance distance distance)"

definition shiftBox :: "Vector3 \<Rightarrow> Box3 \<Rightarrow> Box3" where
  "shiftBox t b = \<lparr>bmin = vadd t (bmin b), bmax = vadd t (bmax b)\<rparr>"

text \<open>
  A cube of edge \<open>e\<close> centered at \<open>c\<close> as twelve triangles over its eight corners, a
  loaded model holding a geometry, and a scene with the camera on the z axis.
\<close>

definition cube_corners :: "Vector3 \<Rightarrow> real \<Rightarrow> Vector3 list" where
  "cube_corners c e =
     [vec (vx c - e / 2) (vy c - e / 2) (vz c - e / 2),
      vec (vx c + e / 2) (vy c - e / 2) (vz c - e / 2),
      vec (vx c + e / 2) (vy c + e / 2) (vz c - e / 2),
      vec (vx c - e / 2) (vy c + e / 2) (vz c - e / 2),
      vec (vx c - e / 2) (vy c - e / 2) (vz c + e / 2),
      vec (vx c + e / 2) (vy c - e / 2) (vz c + e / 2),
      vec (vx c + e / 2) (vy c + e / 2) (vz c + e / 2),
      vec (vx c - e / 2) (vy c + e / 2) (vz c + e / 2)]"

definition cube_faces :: "nat list" where
  "cube_faces =
     [0, 2, 1,  0, 3, 2,  4, 5, 6,  4, 6, 7,  0, 1, 5,  0, 5, 4,
      3, 6, 2,  3, 7, 6,  0, 7, 3,  0, 4, 7,  1, 2, 6,  1, 6, 5]"

definition cube :: "Vector3 \<Rightarrow> real \<Rightarrow> BufferGeometry" where
  "cube c e = \<lparr>positions = map (\<lambda>i. cube_corners c e ! i) cube_faces, boundingBox = None\<rparr>"

definition model_of :: "BufferGeometry \<Rightarrow> (ParseError, BufferGeometry) STLModel" where
  "model_of g = \<lparr>url = ''model.stl'', geometry = Some g, isRotating = False, inflight = [],
      console = [LogParsedStandard]\<rparr>"

definition default_scene :: scene where
  "default_scene =
     \<lparr>cam_position = vec 0 0 5, cam_zoom = 1, cam_aim = vec 0 0 0, ctl_target = vec 0 0 0\<rparr>"

text \<open>
  The comparison of the callback in the specification's words (4.1): the first five bytes,
  read as text, are \<open>solid\<close> in any mix of upper and lower case.
\<close>

definition starts_with_solid :: "byte list \<Rightarrow> bool" where
  "starts_with_solid buf =
     (case take 5 buf of
        [b0, b1, b2, b3, b4] \<Rightarrow>
          (b0 = 0x73 \<or> b0 = 0x53) \<and> (b1 = 0x6F \<or> b1 = 0x4F) \<and> (b2 = 0x6C \<or> b2 = 0x4C)
          \<and> (b3 = 0x69 \<or> b3 = 0x49) \<and> (b4 = 0x64 \<or> b4 = 0x44)
      | _ \<Rightarrow> False)"

text \<open>
  Two distinct one-triangle meshes, a mesh with no triangle, a triangle whose three
  vertices coincide, the four bytes \<open>SoLi\<close>, and a binary buffer
  that declares one triangle and is one byte short of its 134 bytes.
\<close>

definition mesh_a :: BufferGeometry where
  "mesh_a = \<lparr>positions = [vec 0 0 0, vec 1 0 0, vec 0 1 0], boundingBox = None\<rparr>"

definition mesh_b :: BufferGeometry where
  "mesh_b = \<lparr>positions = [vec 0 0 0, vec 2 0 0, vec 0 2 0], boundingBox = None\<rparr>"

definition empty_mesh :: BufferGeometry where
  "empty_mesh = \<lparr>positions = [], boundingBox = None\<rparr>"

definition point_mesh :: BufferGeometry where
  "point_mesh = \<lparr>positions = [vec 1 2 3, vec 1 2 3, vec 1 2 3], boundingBox = None\<rparr>"

definition soli :: "byte list" where
  "soli = [0x53, 0x6F, 0x4C, 0x69]"

definition one_byte_short :: "byte list" where
  "one_byte_short = replicate 80 7 @ [1, 0, 0, 0] @ replicate 49 0"


definition rejecting_ascii :: "byte list \<Rightarrow> ParseError + Triangle list" where
  "rejecting_ascii text = Inl (MalformedFacet 0)"

section \<open>Properties\<close>

lemma act_keeps_reset_frame:
  "initialCameraPosition (act upd a v) = initialCameraPosition v
   \<and> controlsRef (act upd a v) = controlsRef v
   \<and> error (act upd a v) = error v"
  by (cases a) (simp_all add: resetView_def zoom_def)

lemma acts_keeps_reset_frame:
  "initialCameraPosition (acts upd as v) = initialCameraPosition v
   \<and> controlsRef (acts upd as v) = controlsRef v
   \<and> error (acts upd as v) = error v"
  by (induction as arbitrary: v) (simp_all add: act_keeps_reset_frame)

lemma keeps_view_id: "keeps_view id"
  by (simp add: keeps_view_def)

text \<open>
  C9. Pressing reset twice in a row gives the same camera frame (position, target, zoom)
  as pressing it once, provided \<open>controls.update()\<close> leaves position, zoom and target
  where the reset put them.
\<close>

theorem resetView_twice:
  assumes "keeps_view upd"
  shows "frame_of (resetView upd (resetView upd v)) = frame_of (resetView upd v)"
  using assms by (simp add: resetView_def frame_of_def keeps_view_def)

theorem resetView_twice_witness:
  "keeps_view id
   \<and> frame_of (resetView id (resetView id (STLViewer_init True False
         \<lparr>cam_position = vec 0 0 5, cam_zoom = 3, cam_aim = vec 0 0 0,
          ctl_target = vec 1 1 1\<rparr>)))
     = frame_of (resetView id (STLViewer_init True False
         \<lparr>cam_position = vec 0 0 5, cam_zoom = 3, cam_aim = vec 0 0 0,
          ctl_target = vec 1 1 1\<rparr>))
   \<and> frame_of (resetView id (STLViewer_init True False
         \<lparr>cam_position = vec 0 0 5, cam_zoom = 3, cam_aim = vec 0 0 0,
          ctl_target = vec 1 1 1\<rparr>))
     = (vec 5 5 5, vec 0 0 0, 1)"
proof -
  have "frame_of (resetView id (STLViewer_init True False
         \<lparr>cam_position = vec 0 0 5, cam_zoom = 3, cam_aim = vec 0 0 0,
          ctl_target = vec 1 1 1\<rparr>))
     = (vec 5 5 5, vec 0 0 0, 1)"
    by (simp add: resetView_def frame_of_def STLViewer_init_def)
  with keeps_view_id resetView_twice [OF keeps_view_id] show ?thesis by blast
qed

subsection \<open>Reset and the stored position\<close>

lemma frame_of_reset:
  assumes "keeps_view upd" and "controlsRef v"
  shows "frame_of (resetView upd v) = (initialCameraPosition v, vec 0 0 0, 1)"
  using assms by (simp add: resetView_def frame_of_def keeps_view_def)

text \<open>
  C10. A viewer that has only seen user actions since it was created (no framing has been
  computed) still stores the position (5, 5, 5). With the controls mounted, a reset there
  puts the camera at (5, 5, 5), the zoom at 1 and the orbit target at the origin, provided
  \<open>controls.update()\<close> leaves them where the reset put them.
\<close>

theorem initial_reset_frame:
  assumes "keeps_view upd"
  shows "initialCameraPosition (acts upd as (STLViewer_init ref st sc)) = vec 5 5 5
     \<and> frame_of (resetView upd (acts upd as (STLViewer_init True st sc)))
        = (vec 5 5 5, vec 0 0 0, 1)"
proof -
  have "controlsRef (acts upd as (STLViewer_init True st sc))"
    and "initialCameraPosition (acts upd as (STLViewer_init r st sc)) = vec 5 5 5" for r
    by (simp_all add: acts_keeps_reset_frame STLViewer_init_def)
  then show ?thesis using frame_of_reset [OF assms] by simp
qed

theorem initial_reset_frame_witness:
  "keeps_view id
   \<and> initialCameraPosition
        (acts id [Zoom (6 / 5), Orbit (vec 1 2 3) (vec 0 1 0)]
           (STLViewer_init False False default_scene)) = vec 5 5 5
   \<and> frame_of (resetView id
        (acts id [Zoom (6 / 5), Orbit (vec 1 2 3) (vec 0 1 0)]
           (STLViewer_init True False default_scene)))
      = (vec 5 5 5, vec 0 0 0, 1)"
  by (rule conjI [OF keeps_view_id initial_reset_frame [OF keeps_view_id]])

subsection \<open>The bounding box under translation\<close>

lemma vmin_vadd: "vmin (vadd t a) (vadd t b) = vadd t (vmin a b)"
  by (simp add: vmin_def vadd_def vec_def min_def)

lemma vmax_vadd: "vmax (vadd t a) (vadd t b) = vadd t (vmax a b)"
  by (simp add: vmax_def vadd_def vec_def max_def)

lemma expandByPoints_shift:
  "expandByPoints (shiftBox t b) (map (vadd t) ps) = shiftBox t (expandByPoints b ps)"
proof (induction ps arbitrary: b)
  case Nil
  show ?case by simp
next
  case (Cons p ps)
  have "\<lparr>bmin = vmin (bmin (shiftBox t b)) (vadd t p),
         bmax = vmax (bmax (shiftBox t b)) (vadd t p)\<rparr>
        = shiftBox t \<lparr>bmin = vmin (bmin b) p, bmax = vmax (bmax b) p\<rparr>"
    by (simp add: shiftBox_def vmin_vadd vmax_vadd)
  then show ?case using Cons.IH by simp
qed

lemma box_of_shift: "box_of (map (vadd t) ps) = map_option (shiftBox t) (box_of ps)"
proof (cases ps)
  case Nil
  then show ?thesis by simp
next
  case (Cons p qs)
  have "\<lparr>bmin = vadd t p, bmax = vadd t p\<rparr> = shiftBox t \<lparr>bmin = p, bmax = p\<rparr>"
    by (simp add: shiftBox_def)
  then show ?thesis
    using Cons expandByPoints_shift [of t "\<lparr>bmin = p, bmax = p\<rparr>" qs] by simp
qed

lemma getSize_shift: "getSize (shiftBox t b) = getSize b"
  by (simp add: getSize_def shiftBox_def vsub_def vadd_def vec_def)

subsection \<open>The framing effect\<close>

text \<open>
  On a geometry with at least one vertex the effect never reaches the throwing branch, and
  its result is the following.
\<close>

lemma frame_effect_Some:
  assumes g: "geometry m = Some g" and b: "box_of (positions g) = Some b"
  shows "\<exists>g'. frame_effect upd (m, v) =
     Inr (m\<lparr>geometry := Some g'\<rparr>,
          v\<lparr>initialCameraPosition := isometric_position b,
            view := (if store_controls v
                     then upd ((view v)\<lparr>cam_position := isometric_position b,
                                          ctl_target := vec 0 0 0\<rparr>)
                     else (view v)\<lparr>cam_position := isometric_position b,
                                     cam_aim := vec 0 0 0\<rparr>)\<rparr>)"
proof -
  define c where "c = getCenter b"
  define t where "t = vec (- vx c) (- vy c) (- vz c)"
  define g1 where "g1 = computeBoundingBox g"
  define g2 where "g2 = translate (- vx c) (- vy c) (- vz c) g1"
  have b1: "boundingBox g1 = Some b"
    by (simp add: g1_def computeBoundingBox_def b)
  have b2: "boundingBox g2 = Some (shiftBox t b)"
    by (simp add: g2_def translate_def Let_def b1 computeBoundingBox_def g1_def
        box_of_shift b t_def)
  show ?thesis
    unfolding frame_effect_def
    using g b1 b2
    by (auto simp add: Let_def g1_def [symmetric] c_def [symmetric] g2_def [symmetric]
        getSize_shift isometric_position_def handleInitialViewComputed_def)
qed

lemma cube_box:
  "box_of (positions (cube (vec 3 (-1) 2) 1))
   = Some \<lparr>bmin = vec (5/2) (-3/2) (3/2), bmax = vec (7/2) (-1/2) (5/2)\<rparr>"
  by (simp add: cube_def cube_corners_def cube_faces_def vec_def vmin_def vmax_def)

lemma cube_position:
  "isometric_position \<lparr>bmin = vec (5/2) (-3/2) (3/2), bmax = vec (7/2) (-1/2) (5/2)\<rparr>
   = vec 2 2 2"
  by (simp add: isometric_position_def getSize_def vsub_def vec_def)

lemma model_of_geometry: "geometry (model_of g) = Some g"
  by (simp add: model_of_def)

text \<open>
  C3. For a mesh with at least one vertex, whose bounding box is \<open>b\<close>, the framing effect
  succeeds and puts the camera at (distance, distance, distance) with distance = maxDim
  times 2, maxDim the largest component of the size of \<open>b\<close>; it hands the same position
  to the parent, and it sets the orbit target to the origin (or, when no controls are
  registered, aims the camera at the origin). When the box is a cube of edge \<open>e\<close>,
  wherever it is centered, the position is (2e, 2e, 2e). \<open>controls.update()\<close> is assumed
  to leave position, zoom and target as they are.
\<close>

theorem frame_effect_isometric:
  assumes "geometry m = Some g" and "box_of (positions g) = Some b" and "keeps_view upd"
  shows "\<exists>m' v'. frame_effect upd (m, v) = Inr (m', v')
     \<and> cam_position (view v') = isometric_position b
     \<and> initialCameraPosition v' = isometric_position b
     \<and> (if store_controls v then ctl_target (view v') else cam_aim (view v')) = vec 0 0 0
     \<and> (\<forall>e. getSize b = vec e e e \<longrightarrow> isometric_position b = vec (2 * e) (2 * e) (2 * e))"
proof -
  from frame_effect_Some [OF assms(1,2), of upd v] obtain g' where
    "frame_effect upd (m, v) =
     Inr (m\<lparr>geometry := Some g'\<rparr>,
          v\<lparr>initialCameraPosition := isometric_position b,
            view := (if store_controls v
                     then upd ((view v)\<lparr>cam_position := isometric_position b,
                                          ctl_target := vec 0 0 0\<rparr>)
                     else (view v)\<lparr>cam_position := isometric_position b,
                                     cam_aim := vec 0 0 0\<rparr>)\<rparr>)"
    by blast
  moreover have
    "\<forall>e. getSize b = vec e e e \<longrightarrow> isometric_position b = vec (2 * e) (2 * e) (2 * e)"
    by (simp add: isometric_position_def vec_def Let_def mult.commute)
  ultimately show ?thesis
    using assms(3) by (simp add: keeps_view_def)
qed

theorem frame_effect_isometric_witness:
  "geometry (model_of (cube (vec 3 (-1) 2) 1)) = Some (cube (vec 3 (-1) 2) 1)
   \<and> box_of (positions (cube (vec 3 (-1) 2) 1))
       = Some \<lparr>bmin = vec (5/2) (-3/2) (3/2), bmax = vec (7/2) (-1/2) (5/2)\<rparr>
   \<and> keeps_view id
   \<and> (\<exists>m' v'. frame_effect id
          (model_of (cube (vec 3 (-1) 2) 1), STLViewer_init True False default_scene)
                = Inr (m', v')
        \<and> cam_position (view v') = vec 2 2 2
        \<and> initialCameraPosition v' = vec 2 2 2
        \<and> cam_aim (view v') = vec 0 0 0)"
proof -
  have s: "\<not> store_controls (STLViewer_init True False default_scene)"
    by (simp add: STLViewer_init_def)
  from frame_effect_isometric [OF model_of_geometry cube_box keeps_view_id,
      of "STLViewer_init True False default_scene"] s cube_position
  have "\<exists>m' v'. frame_effect id
          (model_of (cube (vec 3 (-1) 2) 1), STLViewer_init True False default_scene)
                = Inr (m', v')
        \<and> cam_position (view v') = vec 2 2 2
        \<and> initialCameraPosition v' = vec 2 2 2
        \<and> cam_aim (view v') = vec 0 0 0"
    by auto
  with model_of_geometry cube_box keeps_view_id show ?thesis by blast
qed











subsection \<open>The normalized bounding box\<close>

lemma frame_effect_normalized:
  assumes g: "geometry m = Some g" and b: "box_of (positions g) = Some b"
  shows "\<exists>v'. frame_effect upd (m, v) =
     Inr (m\<lparr>geometry := Some
            (g\<lparr>positions := map (vadd (multiplyScalar (- 1) (getCenter b))) (positions g),
               boundingBox := Some (shiftBox (multiplyScalar (- 1) (getCenter b)) b)\<rparr>)\<rparr>,
          v')"
proof -
  define c where "c = getCenter b"
  define t where "t = vec (- vx c) (- vy c) (- vz c)"
  define g1 where "g1 = computeBoundingBox g"
  define g2 where "g2 = translate (- vx c) (- vy c) (- vz c) g1"
  have tt: "multiplyScalar (- 1) c = t" by (simp add: t_def multiplyScalar_def)
  have b1: "boundingBox g1 = Some b"
    by (simp add: g1_def computeBoundingBox_def b)
  have b2: "g2 = g\<lparr>positions := map (vadd t) (positions g),
                  boundingBox := Some (shiftBox t b)\<rparr>"
    by (simp add: g2_def translate_def Let_def b1 computeBoundingBox_def g1_def
        box_of_shift b t_def)
  show ?thesis
    unfolding frame_effect_def
    using g b1
    by (simp add: Let_def g1_def [symmetric] c_def [symmetric] g2_def [symmetric] tt b2)
qed

lemma shiftBox_centered:
  "vadd (bmin (shiftBox (multiplyScalar (- 1) (getCenter b)) b))
        (bmax (shiftBox (multiplyScalar (- 1) (getCenter b)) b)) = vec 0 0 0"
  by (simp add: shiftBox_def getCenter_def multiplyScalar_def vadd_def vec_def)

text \<open>
  C8. For a mesh with at least one vertex, after the effect has computed the bounding box
  and translated the geometry by minus the box's center, the stored box is the box of the
  translated positions, and on each axis its minimum is minus its maximum: the sum of the
  two is zero, so it is within the tolerance of 1e-5 relative to the larger of the two.
  Numbers are exact reals here and the box and the translation are the ones described in
  section 4.4.
\<close>

theorem normalizer_centres_box:
  assumes "geometry m = Some g" and "box_of (positions g) = Some b"
  shows "\<exists>m' v' g' b'. frame_effect upd (m, v) = Inr (m', v')
     \<and> geometry m' = Some g'
     \<and> positions g' = map (vadd (multiplyScalar (- 1) (getCenter b))) (positions g)
     \<and> boundingBox g' = Some b'
     \<and> box_of (positions g') = Some b'
     \<and> vadd (bmin b') (bmax b') = vec 0 0 0
     \<and> \<bar>vx (bmin b') + vx (bmax b')\<bar>
         \<le> (1 / 100000) * max \<bar>vx (bmin b')\<bar> \<bar>vx (bmax b')\<bar>
     \<and> \<bar>vy (bmin b') + vy (bmax b')\<bar>
         \<le> (1 / 100000) * max \<bar>vy (bmin b')\<bar> \<bar>vy (bmax b')\<bar>
     \<and> \<bar>vz (bmin b') + vz (bmax b')\<bar>
         \<le> (1 / 100000) * max \<bar>vz (bmin b')\<bar> \<bar>vz (bmax b')\<bar>"
proof -
  let ?t = "multiplyScalar (- 1) (getCenter b)"
  let ?g = "g\<lparr>positions := map (vadd ?t) (positions g),
              boundingBox := Some (shiftBox ?t b)\<rparr>"
  from frame_effect_normalized [OF assms, of upd v] obtain v' where
    fe: "frame_effect upd (m, v) = Inr (m\<lparr>geometry := Some ?g\<rparr>, v')"
    by blast
  have bx: "box_of (positions ?g) = Some (shiftBox ?t b)"
    by (simp add: box_of_shift assms(2))
  have s: "vadd (bmin (shiftBox ?t b)) (bmax (shiftBox ?t b)) = vec 0 0 0"
    by (rule shiftBox_centered)
  then have z: "vx (bmin (shiftBox ?t b)) + vx (bmax (shiftBox ?t b)) = 0"
    "vy (bmin (shiftBox ?t b)) + vy (bmax (shiftBox ?t b)) = 0"
    "vz (bmin (shiftBox ?t b)) + vz (bmax (shiftBox ?t b)) = 0"
    by (simp_all add: vadd_def vec_def)
  have "geometry (m\<lparr>geometry := Some ?g\<rparr>) = Some ?g"
    and "positions ?g = map (vadd ?t) (positions g)"
    and "boundingBox ?g = Some (shiftBox ?t b)"
    by simp_all
  with fe bx s z show ?thesis
    by (intro exI [of _ "m\<lparr>geometry := Some ?g\<rparr>"] exI [of _ v'] exI [of _ ?g]
        exI [of _ "shiftBox ?t b"]) simp
qed

theorem normalizer_centres_box_witness:
  "geometry (model_of (cube (vec 3 (-1) 2) 1)) = Some (cube (vec 3 (-1) 2) 1)
   \<and> box_of (positions (cube (vec 3 (-1) 2) 1))
       = Some \<lparr>bmin = vec (5/2) (-3/2) (3/2), bmax = vec (7/2) (-1/2) (5/2)\<rparr>
   \<and> (\<exists>m' v' g' b'. frame_effect id
          (model_of (cube (vec 3 (-1) 2) 1), STLViewer_init True False default_scene)
            = Inr (m', v')
        \<and> geometry m' = Some g'
        \<and> boundingBox g' = Some b'
        \<and> box_of (positions g') = Some b'
        \<and> vadd (bmin b') (bmax b') = vec 0 0 0)"
proof -
  from normalizer_centres_box [OF model_of_geometry cube_box, of id
      "STLViewer_init True False default_scene"]
  have "\<exists>m' v' g' b'. frame_effect id
          (model_of (cube (vec 3 (-1) 2) 1), STLViewer_init True False default_scene)
            = Inr (m', v')
        \<and> geometry m' = Some g'
        \<and> boundingBox g' = Some b'
        \<and> box_of (positions g') = Some b'
        \<and> vadd (bmin b') (bmax b') = vec 0 0 0"
    by blast
  with model_of_geometry cube_box show ?thesis by blast
qed

text \<open>
  C6, as the code has it. When the largest dimension of the bounding box is zero, the
  computed distance is zero: the effect puts the camera at (0, 0, 0), which is the target,
  and hands (0, 0, 0) to the parent as the reset position. No minimum distance is applied.
\<close>

theorem degenerate_distance_zero:
  assumes "geometry m = Some g" and "box_of (positions g) = Some b"
    and "max (vx (getSize b)) (max (vy (getSize b)) (vz (getSize b))) = 0"
    and "keeps_view upd"
  shows "\<exists>m' v'. frame_effect upd (m, v) = Inr (m', v')
     \<and> cam_position (view v') = vec 0 0 0
     \<and> initialCameraPosition v' = vec 0 0 0"
proof -
  have z: "isometric_position b = vec 0 0 0"
    using assms(3) by (simp add: isometric_position_def)
  from frame_effect_Some [OF assms(1,2), of upd v] obtain g' where
    "frame_effect upd (m, v) =
     Inr (m\<lparr>geometry := Some g'\<rparr>,
          v\<lparr>initialCameraPosition := isometric_position b,
            view := (if store_controls v
                     then upd ((view v)\<lparr>cam_position := isometric_position b,
                                          ctl_target := vec 0 0 0\<rparr>)
                     else (view v)\<lparr>cam_position := isometric_position b,
                                     cam_aim := vec 0 0 0\<rparr>)\<rparr>)"
    by blast
  then show ?thesis
    using assms(4) by (simp add: keeps_view_def z)
qed

lemma point_mesh_box:
  "box_of (positions point_mesh) = Some \<lparr>bmin = vec 1 2 3, bmax = vec 1 2 3\<rparr>"
  by (simp add: point_mesh_def vmin_def vmax_def vec_def)

lemma point_mesh_maxDim:
  "max (vx (getSize \<lparr>bmin = vec 1 2 3, bmax = vec 1 2 3\<rparr>))
     (max (vy (getSize \<lparr>bmin = vec 1 2 3, bmax = vec 1 2 3\<rparr>))
          (vz (getSize \<lparr>bmin = vec 1 2 3, bmax = vec 1 2 3\<rparr>))) = 0"
  by (simp add: getSize_def vsub_def vec_def)

theorem degenerate_distance_zero_witness:
  "geometry (model_of point_mesh) = Some point_mesh
   \<and> box_of (positions point_mesh) = Some \<lparr>bmin = vec 1 2 3, bmax = vec 1 2 3\<rparr>
   \<and> max (vx (getSize \<lparr>bmin = vec 1 2 3, bmax = vec 1 2 3\<rparr>))
       (max (vy (getSize \<lparr>bmin = vec 1 2 3, bmax = vec 1 2 3\<rparr>))
            (vz (getSize \<lparr>bmin = vec 1 2 3, bmax = vec 1 2 3\<rparr>))) = 0
   \<and> keeps_view id
   \<and> (\<exists>m' v'. frame_effect id (model_of point_mesh, STLViewer_init True True default_scene)
                 = Inr (m', v')
        \<and> cam_position (view v') = vec 0 0 0
        \<and> initialCameraPosition v' = vec 0 0 0)"
  using model_of_geometry point_mesh_box point_mesh_maxDim keeps_view_id
    degenerate_distance_zero [OF model_of_geometry point_mesh_box point_mesh_maxDim
      keeps_view_id, of "STLViewer_init True True default_scene"]
  by blast

text \<open>
  C6, as the claim states it, fails: for a triangle whose three vertices are the point
  (1, 2, 3) the effect leaves the camera at (0, 0, 0), distance zero from the target.
\<close>

theorem degenerate_distance_counterexample:
  "frame_effect id (model_of point_mesh, STLViewer_init True False default_scene)
   = Inr (model_of \<lparr>positions = [vec 0 0 0, vec 0 0 0, vec 0 0 0],
                    boundingBox = Some \<lparr>bmin = vec 0 0 0, bmax = vec 0 0 0\<rparr>\<rparr>,
          (STLViewer_init True False default_scene)
            \<lparr>initialCameraPosition := vec 0 0 0,
             view := default_scene\<lparr>cam_position := vec 0 0 0, cam_aim := vec 0 0 0\<rparr>\<rparr>)"
  by (simp add: frame_effect_def computeBoundingBox_def model_of_def translate_def
      getCenter_def getSize_def vadd_def vsub_def vmin_def vmax_def multiplyScalar_def
      vec_def Let_def handleInitialViewComputed_def STLViewer_init_def point_mesh_def)

text \<open>
  C5, as the code has it. For a geometry with no vertex the framing effect completes
  without raising anything: the viewer's error flag is what it was, and the geometry stays
  set, still empty, to be rendered.
\<close>

theorem empty_mesh_not_reported:
  assumes "geometry m = Some g" and "positions g = []"
  shows "\<exists>m' v' g'. frame_effect upd (m, v) = Inr (m', v')
     \<and> error v' = error v
     \<and> geometry m' = Some g' \<and> positions g' = []"
  using assms by (simp add: frame_effect_def computeBoundingBox_def)

lemma empty_mesh_positions: "positions empty_mesh = []"
  by (simp add: empty_mesh_def)

theorem empty_mesh_not_reported_witness:
  "geometry (model_of empty_mesh) = Some empty_mesh
   \<and> positions empty_mesh = []
   \<and> (\<exists>m' v' g'.
        frame_effect id (model_of empty_mesh, STLViewer_init True False default_scene)
          = Inr (m', v')
        \<and> error v' = error (STLViewer_init True False default_scene)
        \<and> geometry m' = Some g' \<and> positions g' = [])"
  using model_of_geometry empty_mesh_positions
    empty_mesh_not_reported [OF model_of_geometry empty_mesh_positions,
      of id "STLViewer_init True False default_scene"]
  by blast

text \<open>
  C5, as the claim states it, fails: on a mesh with zero triangles the effect returns
  normally and changes nothing; the error flag stays false and the empty geometry stays
  in place.
\<close>

theorem empty_mesh_counterexample:
  "frame_effect id (model_of empty_mesh, STLViewer_init True False default_scene)
     = Inr (model_of empty_mesh, STLViewer_init True False default_scene)
   \<and> \<not> error (STLViewer_init True False default_scene)
   \<and> geometry (model_of empty_mesh) = Some empty_mesh"
  by (simp add: frame_effect_def computeBoundingBox_def model_of_def empty_mesh_def
      STLViewer_init_def)

subsection \<open>Loads that overlap\<close>

lemma fetch_loaded_is_on_load:
  assumes "u \<in> set (inflight m)"
  shows "step (FetchLoaded u (load_result parse parseASCII buf)) m
         = Some (on_load parse parseASCII buf (m\<lparr>inflight := remove1 u (inflight m)\<rparr>))"
  using assms by (simp add: on_load_def)

text \<open>
  C1, as the code has it. When A is requested, then B, and both fetches complete, the
  geometry at the end is the one delivered by the callback that ran last: B's when A's
  fetch completes first, A's when B's completes first. No token is compared.
\<close>

theorem last_completed_load_wins:
  assumes "A \<noteq> []" and "B \<noteq> []" and "A \<noteq> B" and "url m \<noteq> A"
  shows "map_option geometry (run [SetUrl A, SetUrl B, FetchLoaded A rA, FetchLoaded B rB] m)
           = Some (snd rB)
       \<and> map_option geometry (run [SetUrl A, SetUrl B, FetchLoaded B rB, FetchLoaded A rA] m)
           = Some (snd rA)"
  using assms
  by (simp add: load_effect_def setUrl_def deliver_def setGeometry_def)

theorem last_completed_load_wins_witness:
  "''a.stl'' \<noteq> [] \<and> ''b.stl'' \<noteq> [] \<and> ''a.stl'' \<noteq> ''b.stl''
   \<and> url (mount ''first.stl'' :: (ParseError, BufferGeometry) STLModel) \<noteq> ''a.stl''
   \<and> map_option geometry
       (run [SetUrl ''a.stl'', SetUrl ''b.stl'',
             FetchLoaded ''a.stl'' ([LogParsedStandard], Some mesh_a),
             FetchLoaded ''b.stl'' ([LogParsedStandard], Some mesh_b)]
          (mount ''first.stl'' :: (ParseError, BufferGeometry) STLModel))
       = Some (Some mesh_b)"
proof -
  have h: "''a.stl'' \<noteq> []" "''b.stl'' \<noteq> []" "''a.stl'' \<noteq> ''b.stl''"
    "url (mount ''first.stl'' :: (ParseError, BufferGeometry) STLModel) \<noteq> ''a.stl''"
    by (simp_all add: mount_def load_effect_def)
  from last_completed_load_wins [OF h,
      of "([LogParsedStandard], Some mesh_a)" "([LogParsedStandard], Some mesh_b)"]
  have "map_option geometry
       (run [SetUrl ''a.stl'', SetUrl ''b.stl'',
             FetchLoaded ''a.stl'' ([LogParsedStandard], Some mesh_a),
             FetchLoaded ''b.stl'' ([LogParsedStandard], Some mesh_b)]
          (mount ''first.stl'' :: (ParseError, BufferGeometry) STLModel))
       = Some (snd ([LogParsedStandard] :: ParseError console_line list, Some mesh_b))"
    by (rule conjunct1)
  with h show ?thesis by simp
qed

text \<open>
  C1, as the claim states it, fails: the viewer mounts on a.stl, b.stl is requested before
  a.stl has arrived, b.stl arrives and then a.stl. The geometry at the end is the mesh of
  a.stl, which differs from the mesh of b.stl.
\<close>

theorem superseded_load_counterexample:
  "map_option geometry
     (run [SetUrl ''b.stl'',
           FetchLoaded ''b.stl'' ([LogParsedStandard], Some mesh_b),
           FetchLoaded ''a.stl'' ([LogParsedStandard], Some mesh_a)]
        (mount ''a.stl'' :: (ParseError, BufferGeometry) STLModel))
   = Some (Some mesh_a) \<and> mesh_a \<noteq> mesh_b"
  by (simp add: mount_def load_effect_def setUrl_def deliver_def setGeometry_def
      mesh_a_def mesh_b_def vec_def)

subsection \<open>The fallback of the load callback\<close>

lemma toLowerCase_eq_iff:
  "toLowerCase b = 0x73 \<longleftrightarrow> b = 0x73 \<or> b = 0x53"
  "toLowerCase b = 0x6F \<longleftrightarrow> b = 0x6F \<or> b = 0x4F"
  "toLowerCase b = 0x6C \<longleftrightarrow> b = 0x6C \<or> b = 0x4C"
  "toLowerCase b = 0x69 \<longleftrightarrow> b = 0x69 \<or> b = 0x49"
  "toLowerCase b = 0x64 \<longleftrightarrow> b = 0x64 \<or> b = 0x44"
  unfolding toLowerCase_def by (auto; unat_arith)+

lemma beginning_solid_iff: "beginning buf = solid \<longleftrightarrow> starts_with_solid buf"
proof -
  have "map toLowerCase xs = solid \<longleftrightarrow>
        (case xs of
           [b0, b1, b2, b3, b4] \<Rightarrow>
             (b0 = 0x73 \<or> b0 = 0x53) \<and> (b1 = 0x6F \<or> b1 = 0x4F) \<and> (b2 = 0x6C \<or> b2 = 0x4C)
             \<and> (b3 = 0x69 \<or> b3 = 0x49) \<and> (b4 = 0x64 \<or> b4 = 0x44)
         | _ \<Rightarrow> False)" for xs
    by (simp add: solid_def toLowerCase_eq_iff split: list.split)
  then show ?thesis by (simp add: beginning_def starts_with_solid_def)
qed

lemma replicate_numeral: "replicate (numeral k) x = x # replicate (pred_numeral k) x"
  by (simp add: numeral_eq_Suc)

text \<open>
  C7, as the code has it. When \<open>loader.parse\<close> throws on a buffer, the callback compares
  the first five bytes, lower-cased, with \<open>solid\<close>, which is the case-insensitive
  comparison. On a match the whole buffer goes to \<open>parseASCII\<close> and its result becomes
  the geometry (none if it throws too). On a mismatch the error of line 87 is raised,
  caught by the callback's own \<open>catch\<close> and written with \<open>console.error\<close>, and the
  geometry is set to null. In every case the state of \<open>STLViewer\<close>, its error flag
  included, is left as it was.
\<close>

theorem fallback_logs_and_clears:
  assumes "parse buf = Inl err"
  shows "(beginning buf = solid \<longleftrightarrow> starts_with_solid buf)
     \<and> geometry (fst (viewer_on_load parse parseASCII buf (m, v)))
         = (if starts_with_solid buf
            then (case parseASCII buf of
                    Inr asciiGeometry \<Rightarrow> Some asciiGeometry
                  | Inl e \<Rightarrow> None)
            else None)
     \<and> (\<not> starts_with_solid buf \<longrightarrow>
          console (fst (viewer_on_load parse parseASCII buf (m, v)))
            = console m @ [WarnStandardFailed err, ErrorFallbackFailed NotValidAscii])
     \<and> snd (viewer_on_load parse parseASCII buf (m, v)) = v"
  using assms
  by (simp add: beginning_solid_iff [symmetric] viewer_on_load_def on_load_def
      load_result_def deliver_def setGeometry_def split: sum.split)

theorem fallback_logs_and_clears_witness:
  "parseBinary soli = Inl (TruncatedOrCorrupt 84 4)
   \<and> geometry (fst (viewer_on_load parseBinary rejecting_ascii soli
        (mount ''model.stl'', STLViewer_init True False default_scene))) = None
   \<and> console (fst (viewer_on_load parseBinary rejecting_ascii soli
        (mount ''model.stl'', STLViewer_init True False default_scene)))
       = [WarnStandardFailed (TruncatedOrCorrupt 84 4), ErrorFallbackFailed NotValidAscii]
   \<and> snd (viewer_on_load parseBinary rejecting_ascii soli
        (mount ''model.stl'', STLViewer_init True False default_scene))
       = STLViewer_init True False default_scene"
proof -
  have p: "parseBinary soli = Inl (TruncatedOrCorrupt 84 4)"
    by (simp add: parseBinary_def soli_def)
  have n: "\<not> starts_with_solid soli"
    by (simp add: starts_with_solid_def soli_def)
  have c: "console (mount ''model.stl'' :: (ParseError, Triangle list) STLModel) = []"
    by (simp add: mount_def load_effect_def)
  from fallback_logs_and_clears [of parseBinary soli "TruncatedOrCorrupt 84 4"
      rejecting_ascii "mount ''model.stl''" "STLViewer_init True False default_scene", OF p]
    n c
  have "geometry (fst (viewer_on_load parseBinary rejecting_ascii soli
        (mount ''model.stl'', STLViewer_init True False default_scene))) = None
   \<and> console (fst (viewer_on_load parseBinary rejecting_ascii soli
        (mount ''model.stl'', STLViewer_init True False default_scene)))
       = [WarnStandardFailed (TruncatedOrCorrupt 84 4), ErrorFallbackFailed NotValidAscii]
   \<and> snd (viewer_on_load parseBinary rejecting_ascii soli
        (mount ''model.stl'', STLViewer_init True False default_scene))
       = STLViewer_init True False default_scene"
    by simp
  with p show ?thesis by blast
qed

text \<open>
  C7, as the claim states it, fails: on the four bytes \<open>SoLi\<close> the parse throws and the
  comparison with \<open>solid\<close> fails, and afterwards the viewer's error flag is still false
  and there is no geometry: nothing is surfaced to the viewer.
\<close>

theorem unrecognized_not_surfaced_counterexample:
  "parseBinary soli = Inl (TruncatedOrCorrupt 84 4)
   \<and> beginning soli \<noteq> solid
   \<and> \<not> error (snd (viewer_on_load parseBinary rejecting_ascii soli
          (mount ''model.stl'', STLViewer_init True False default_scene)))
   \<and> geometry (fst (viewer_on_load parseBinary rejecting_ascii soli
          (mount ''model.stl'', STLViewer_init True False default_scene))) = None"
  by (simp add: viewer_on_load_def on_load_def load_result_def deliver_def setGeometry_def
      parseBinary_def soli_def beginning_def solid_def toLowerCase_def STLViewer_init_def)

subsection \<open>The binary parser of the specification\<close>

lemma length_read_records: "length (read_records n bs) = n"
  by (induction n arbitrary: bs) simp_all

text \<open>
  C2. For a buffer long enough to hold the header and the count, whose declared count is
  N, the binary parser of section 4.2 returns a mesh exactly when the buffer has
  84 + 50 N bytes, and the mesh then has N triangles; with any other length it fails with
  TruncatedOrCorrupt carrying the expected and the actual byte counts.
\<close>

theorem parseBinary_exact_length:
  assumes "84 \<le> length buf"
  shows "((\<exists>mesh. parseBinary buf = Inr mesh) \<longleftrightarrow> length buf = 84 + 50 * declared_count buf)
     \<and> (length buf \<noteq> 84 + 50 * declared_count buf \<longrightarrow>
          parseBinary buf
            = Inl (TruncatedOrCorrupt (84 + 50 * declared_count buf) (length buf)))
     \<and> (\<forall>mesh. parseBinary buf = Inr mesh \<longrightarrow> length mesh = declared_count buf)"
  using assms by (auto simp add: parseBinary_def Let_def length_read_records)

theorem parseBinary_exact_length_witness:
  "84 \<le> length one_byte_short
   \<and> declared_count one_byte_short = 1
   \<and> length one_byte_short = 133
   \<and> parseBinary one_byte_short = Inl (TruncatedOrCorrupt 134 133)"
proof -
  have h: "84 \<le> length one_byte_short"
    by (simp add: one_byte_short_def)
  have n: "declared_count one_byte_short = 1"
    by (simp add: one_byte_short_def declared_count_def getUint32_def replicate_numeral)
  have l: "length one_byte_short = 133"
    by (simp add: one_byte_short_def)
  from parseBinary_exact_length [OF h]
  have "length one_byte_short \<noteq> 84 + 50 * declared_count one_byte_short \<longrightarrow>
        parseBinary one_byte_short
          = Inl (TruncatedOrCorrupt (84 + 50 * declared_count one_byte_short)
                  (length one_byte_short))"
    by blast
  then have "parseBinary one_byte_short = Inl (TruncatedOrCorrupt 134 133)"
    by (simp add: n l)
  with h n l show ?thesis by blast
qed

end
